theory Spec2Isabelle
  imports Main
begin

section \<open>JavaScript values\<close>

text \<open>
  The values that flow through \<^verbatim>\<open>src/wallet.js\<close>. Amounts are satoshis, so a number is
  an integer or \<^verbatim>\<open>NaN\<close> (which has type \<^verbatim>\<open>number\<close> and compares false with everything).
\<close>

datatype jsval = JUndefined | JNull | JBool bool | JNumber int | JNaN | JString string

fun typeof :: "jsval \<Rightarrow> string" where
  "typeof JUndefined = ''undefined''"
| "typeof JNull = ''object''"
| "typeof (JBool b) = ''boolean''"
| "typeof (JNumber n) = ''number''"
| "typeof JNaN = ''number''"
| "typeof (JString s) = ''string''"

text \<open>The truth value JavaScript gives a value in \<^verbatim>\<open>if (v)\<close>.\<close>

fun truthy :: "jsval \<Rightarrow> bool" where
  "truthy JUndefined = False"
| "truthy JNull = False"
| "truthy (JBool b) = b"
| "truthy (JNumber n) = (n \<noteq> 0)"
| "truthy JNaN = False"
| "truthy (JString s) = (s \<noteq> [])"

text \<open>
  \<^verbatim>\<open>v <= 0\<close>. The source evaluates it only after \<^verbatim>\<open>typeof(v) != 'number'\<close> has been
  excluded, so only the two number cases are ever read.
\<close>

fun le_zero :: "jsval \<Rightarrow> bool" where
  "le_zero (JNumber n) = (n \<le> 0)"
| "le_zero v = False"

text \<open>
  An object literal such as \<^verbatim>\<open>{ tx: ..., fee: ... }\<close> is the list of its properties;
  reading a property that is absent gives \<^verbatim>\<open>undefined\<close>.
\<close>

type_synonym jsobj = "(string \<times> jsval) list"

definition field :: "jsobj \<Rightarrow> string \<Rightarrow> jsval" where
  "field obj name = (case map_of obj name of None \<Rightarrow> JUndefined | Some v \<Rightarrow> v)"

section \<open>Errors, promises and the observed collaborator calls\<close>

text \<open>
  \<^verbatim>\<open>Error msg\<close> is \<^verbatim>\<open>new Error(msg)\<close>; \<^verbatim>\<open>TypeError\<close> is what the runtime raises when a
  property of \<^verbatim>\<open>undefined\<close> is read or a property that is \<^verbatim>\<open>undefined\<close> is called;
  \<^verbatim>\<open>ValidationError\<close> is what \<^verbatim>\<open>common.validateParams\<close> raises (see below).
\<close>

datatype error = Error string | TypeError string | ValidationError string

text \<open>
  How a call of a method of the wallet ends: it throws before returning a promise, or
  the promise it returns is rejected, or resolved with a value. With a callback
  (\<^verbatim>\<open>.nodeify(callback)\<close>) the last two are \<^verbatim>\<open>callback(err)\<close> and
  \<^verbatim>\<open>callback(null, value)\<close>.
\<close>

datatype 'a outcome = Thrown error | Rejected error | Resolved 'a

record keychain =
  xpub :: jsval
  encryptedXprv :: jsval
  xprv :: jsval

text \<open>
  One event per call that leaves the wallet object: the keychain service, the decryption
  primitive, the two phases of the Transaction Builder, and the broadcast endpoint
  \<^verbatim>\<open>POST /tx/send\<close>.
\<close>

datatype event =
    KeychainGet jsval
  | Decrypt jsval jsval
  | Prepare jsval jsval jsval
  | Sign keychain
  | TxSend jsval

type_synonym 'a run = "'a outcome \<times> event list"

text \<open>
  \<^verbatim>\<open>p.then(handler)\<close>: the handler runs only when \<^verbatim>\<open>p\<close> is resolved; an exception thrown
  inside the handler rejects the resulting promise.
\<close>

fun settled :: "'a outcome \<Rightarrow> 'a outcome" where
  "settled (Thrown e) = Rejected e"
| "settled (Rejected e) = Rejected e"
| "settled (Resolved v) = Resolved v"

definition thenP :: "'a run \<Rightarrow> ('a \<Rightarrow> 'b run) \<Rightarrow> 'b run" where
  "thenP p handler =
     (case p of
        (Resolved v, t) \<Rightarrow> (case handler v of (r, t') \<Rightarrow> (settled r, t @ t'))
      | (Rejected e, t) \<Rightarrow> (Rejected e, t)
      | (Thrown e, t) \<Rightarrow> (Thrown e, t))"

text \<open>A call of an asynchronous collaborator: one event, and a promise for its answer.\<close>

definition call :: "event \<Rightarrow> error + 'a \<Rightarrow> 'a run" where
  "call ev answer = (case answer of Inl e \<Rightarrow> (Rejected e, [ev]) | Inr v \<Rightarrow> (Resolved v, [ev]))"

section \<open>Collaborators\<close>

text \<open>
  The client object \<^verbatim>\<open>bitgo\<close> the wallet holds (external interfaces of the spec, section 6):
  \<^item> \<^verbatim>\<open>bitgo.keychains().get({xpub: x})\<close>, the keychain service: a promise for the full
    record of the keychain, or a failure of the transport;
  \<^item> \<^verbatim>\<open>bitgo.decrypt({password: p, opaque: blob})\<close>, the decryption primitive: the
    plaintext, or an exception (\<open>Inl\<close>) on a bad password or a corrupt blob;
  \<^item> \<^verbatim>\<open>bitgo.post(bitgo.url('/tx/send')).send({tx: t}).result()\<close>, the broadcast
    endpoint: a promise for the body of the response, or a failure.
\<close>

record bitgo =
  keychains_get :: "jsval \<Rightarrow> error + keychain"
  decrypt :: "jsval \<Rightarrow> jsval \<Rightarrow> error + jsval"
  post_tx_send :: "jsval \<Rightarrow> error + jsobj"

text \<open>
  The wallet data the constructor receives. \<^verbatim>\<open>wallet.private\<close>, when present, is an
  object whose \<^verbatim>\<open>keychains\<close> property is the ordered list of keychain references (or is
  itself missing).
\<close>

record private_data =
  private_keychains :: "keychain list option"

record wallet_data =
  wallet_id :: jsval
  label :: jsval
  balance :: jsval
  wallet_private :: "private_data option"

text \<open>
  The module \<^verbatim>\<open>./transactionBuilder\<close>, over its builder states \<open>'tb\<close>:
  \<^verbatim>\<open>new TransactionBuilder(wallet, {address, amount}, fee).prepare()\<close> (the wallet is
  represented by its data), \<^verbatim>\<open>tb.sign(keychain)\<close>, which answers with a builder state or
  with nothing (\<open>None\<close>), the accessor \<^verbatim>\<open>tb.tx()\<close> and the property \<^verbatim>\<open>tb.fee\<close>.
\<close>

record 'tb transaction_builder =
  prepare :: "wallet_data \<Rightarrow> jsval \<Rightarrow> jsval \<Rightarrow> jsval \<Rightarrow> error + 'tb"
  sign :: "'tb \<Rightarrow> keychain \<Rightarrow> error + 'tb option"
  tb_tx :: "'tb \<Rightarrow> jsval"
  tb_fee :: "'tb \<Rightarrow> jsval"

text \<open>
  Modelled from the spec: \<^verbatim>\<open>common.validateParams(params, expected, optional, callback)\<close>,
  defined in \<^verbatim>\<open>./common\<close> and not in \<^verbatim>\<open>wallet.js\<close>. Section 7 of the spec: a missing or
  ill-typed request field raises a \<^verbatim>\<open>ValidationError\<close> synchronously. The expected
  parameters are the strings \<^verbatim>\<open>address\<close>, \<^verbatim>\<open>walletPassphrase\<close> and \<^verbatim>\<open>tx\<close>; they are
  handed over with their values, in the order of the source's list.
\<close>

fun validateParams :: "(string \<times> jsval) list \<Rightarrow> error option" where
  "validateParams [] = None"
| "validateParams ((name, v) # expected) =
     (if typeof v = ''string'' then validateParams expected else Some (ValidationError name))"

section \<open>The wallet object\<close>section \<open>The wallet object\<close>

record wallet_obj =
  bitgo :: bitgo
  wallet :: wallet_data
  keychains :: "keychain list option"

text \<open>The constructor (lines 15 to 22).\<close>

definition Wallet :: "bitgo \<Rightarrow> wallet_data \<Rightarrow> wallet_obj" where
  "Wallet bitgo' wallet' =
     \<lparr>bitgo = bitgo', wallet = wallet',
      keychains = (case wallet_private wallet' of None \<Rightarrow> Some [] | Some p \<Rightarrow> private_keychains p)\<rparr>"

text \<open>
  \<^verbatim>\<open>self.reject(msg, callback)\<close>, at lines 178 and 299, with \<^verbatim>\<open>self\<close> the wallet object. The
  constructor gives a wallet the properties \<^verbatim>\<open>bitgo\<close>, \<^verbatim>\<open>wallet\<close> and \<^verbatim>\<open>keychains\<close>, and
  \<^verbatim>\<open>Wallet.prototype\<close>, all of which is in \<^verbatim>\<open>wallet.js\<close>, has no \<^verbatim>\<open>reject\<close>. So
  \<^verbatim>\<open>self.reject\<close> is \<^verbatim>\<open>undefined\<close> and the call raises a \<^verbatim>\<open>TypeError\<close>, whatever the
  message: an exception where the call stands, which is a rejection when that is inside
  a handler of a promise.
\<close>

definition reject :: "string \<Rightarrow> 'a outcome" where
  "reject msg = Thrown (TypeError ''self.reject is not a function'')"

subsection \<open>getEncryptedUserKeychain\<close>

text \<open>
  \<^verbatim>\<open>tryKeyChain(index)\<close> (lines 176 to 192). \<^verbatim>\<open>!self.keychains\<close> holds when the property
  is undefined: an array, also the empty one, is truthy.
\<close>

function tryKeyChain :: "wallet_obj \<Rightarrow> nat \<Rightarrow> keychain run" where
  "tryKeyChain self index =
     (case keychains self of
        None \<Rightarrow> (reject ''No encrypted keychains on this wallet.'', [])
      | Some ks \<Rightarrow>
          if length ks \<le> index then (reject ''No encrypted keychains on this wallet.'', [])
          else
            let params = xpub (ks ! index) in
            thenP (call (KeychainGet params) (keychains_get (bitgo self) params))
              (\<lambda>keychain.
                 if truthy (encryptedXprv keychain) then (Resolved keychain, [])
                 else tryKeyChain self (index + 1)))"
  by pat_completeness auto
termination
  by (relation "measure (\<lambda>(self, index). (case keychains self of None \<Rightarrow> 0 | Some ks \<Rightarrow> length ks - index))") auto

declare tryKeyChain.simps [simp del]

definition getEncryptedUserKeychain :: "wallet_obj \<Rightarrow> keychain run" where
  "getEncryptedUserKeychain self = tryKeyChain self 0"

subsection \<open>createTransaction\<close>

record tx_spec =
  address :: jsval
  amount :: jsval

record createTransaction_params = tx_spec +
  fee :: jsval
  keychain :: "keychain option"

text \<open>
  Lines 208 to 235. \<^verbatim>\<open>params.keychain\<close> is an object (\<open>Some\<close>) or undefined. When
  \<^verbatim>\<open>sign\<close> answers with nothing the last handler returns nothing, and the promise is
  resolved with \<^verbatim>\<open>undefined\<close> (\<open>None\<close>).
\<close>

definition createTransaction ::
  "'tb transaction_builder \<Rightarrow> wallet_obj \<Rightarrow> createTransaction_params \<Rightarrow> jsobj option run" where
  "createTransaction TransactionBuilder self params =
     (case validateParams [(''address'', address params)] of
        Some e \<Rightarrow> (Thrown e, [])
      | None \<Rightarrow>
          if typeof (amount params) \<noteq> ''number'' then (Thrown (Error ''invalid argument''), [])
          else if typeof (fee params) \<noteq> ''number'' \<and> typeof (fee params) \<noteq> ''undefined''
            then (Thrown (Error ''invalid argument''), [])
          else
            (case keychain params of
               None \<Rightarrow> (Thrown (Error ''invalid argument''), [])
             | Some kc \<Rightarrow>
                 if le_zero (amount params)
                 then (Thrown (Error ''must send positive number of Satoshis!''), [])
                 else
                   thenP
                     (thenP
                        (call (Prepare (address params) (amount params) (fee params))
                           (prepare TransactionBuilder (wallet self) (address params) (amount params)
                              (fee params)))
                        (\<lambda>tb. call (Sign kc) (sign TransactionBuilder tb kc)))
                     (\<lambda>tb. case tb of
                        Some tb' \<Rightarrow>
                          (Resolved (Some [(''tx'', tb_tx TransactionBuilder tb'),
                                           (''fee'', tb_fee TransactionBuilder tb')]), [])
                      | None \<Rightarrow> (Resolved None, []))))"

subsection \<open>sendTransaction\<close>

text \<open>Lines 245 to 260; \<^verbatim>\<open>params\<close> is \<^verbatim>\<open>{ tx: tx }\<close>.\<close>

definition sendTransaction :: "wallet_obj \<Rightarrow> jsval \<Rightarrow> jsobj run" where
  "sendTransaction self tx =
     (case validateParams [(''tx'', tx)] of
        Some e \<Rightarrow> (Thrown e, [])
      | None \<Rightarrow>
          thenP (call (TxSend tx) (post_tx_send (bitgo self) tx))
            (\<lambda>body. (Resolved [(''tx'', field body ''transaction''),
                                (''hash'', field body ''transactionHash'')], [])))"

subsection \<open>sendCoins\<close>

record sendCoins_params = tx_spec +
  walletPassphrase :: jsval

text \<open>
  Lines 277 to 322. The two handlers of the promise chain are named here:
  \<^item> \<open>sendCoins_unlock\<close> is the first one (lines 294 to 308): it decrypts the user key
    of the keychain \<open>kc\<close>, stores it in \<^verbatim>\<open>keychain.xprv\<close> and calls
    \<^verbatim>\<open>createTransaction\<close>; when the primitive throws, the \<^verbatim>\<open>catch\<close> block calls
    \<^verbatim>\<open>self.reject(...)\<close>;
  \<^item> \<open>sendCoins_send\<close> is the second one with the third (lines 309 to 320). The variable
    \<^verbatim>\<open>transaction\<close> that the second handler assigns and the third one reads is a bound
    variable here, so the third handler is nested in the second. Reading
    \<^verbatim>\<open>transaction.tx\<close> when \<^verbatim>\<open>createTransaction\<close> resolved with \<^verbatim>\<open>undefined\<close> raises a
    \<^verbatim>\<open>TypeError\<close> inside the handler.
\<close>

definition sendCoins_unlock ::
  "'tb transaction_builder \<Rightarrow> wallet_obj \<Rightarrow> sendCoins_params \<Rightarrow> keychain \<Rightarrow> jsobj option run" where
  "sendCoins_unlock TransactionBuilder self params kc =
     (case decrypt (bitgo self) (walletPassphrase params) (encryptedXprv kc) of
        Inl e \<Rightarrow>
          (reject ''Unable to decrypt user keychain'',
           [Decrypt (walletPassphrase params) (encryptedXprv kc)])
      | Inr plain \<Rightarrow>
          (case createTransaction TransactionBuilder self
                  \<lparr>address = address params, amount = amount params,
                   fee = JUndefined, keychain = Some (kc\<lparr>xprv := plain\<rparr>)\<rparr> of
             (r, t) \<Rightarrow> (r, Decrypt (walletPassphrase params) (encryptedXprv kc) # t)))"

definition sendCoins_send :: "wallet_obj \<Rightarrow> jsobj option \<Rightarrow> jsobj option run" where
  "sendCoins_send self result =
     (case result of
        None \<Rightarrow> (Thrown (TypeError ''Cannot read property tx of undefined''), [])
      | Some transaction \<Rightarrow>
          thenP (sendTransaction self (field transaction ''tx''))
            (\<lambda>result.
               (Resolved (Some [(''tx'', field result ''tx''),
                                (''hash'', field result ''hash''),
                                (''fee'', field transaction ''fee'')]), [])))"

definition sendCoins ::
  "'tb transaction_builder \<Rightarrow> wallet_obj \<Rightarrow> sendCoins_params \<Rightarrow> jsobj option run" where
  "sendCoins TransactionBuilder self params =
     (case validateParams [(''address'', address params),
                           (''walletPassphrase'', walletPassphrase params)] of
        Some e \<Rightarrow> (Thrown e, [])
      | None \<Rightarrow>
          if typeof (amount params) \<noteq> ''number''
          then (Thrown (Error ''invalid argument for amount - number expected''), [])
          else if le_zero (amount params)
          then (Thrown (Error ''must send positive number of Satoshis!''), [])
          else
            thenP
              (thenP (getEncryptedUserKeychain self)
                 (sendCoins_unlock TransactionBuilder self params))
              (sendCoins_send self))"

section \<open>Reading a trace\<close>

text \<open>Which collaborator an observed call went to.\<close>

fun is_fetch :: "event \<Rightarrow> bool" where
  "is_fetch (KeychainGet x) = True"
| "is_fetch ev = False"

fun is_builder_call :: "event \<Rightarrow> bool" where
  "is_builder_call (Prepare a n f) = True"
| "is_builder_call (Sign kc) = True"
| "is_builder_call ev = False"

fun is_broadcast :: "event \<Rightarrow> bool" where
  "is_broadcast (TxSend tx) = True"
| "is_broadcast ev = False"

section \<open>Example collaborators\<close>

text \<open>
  A keychain service that knows four keychains: \<^verbatim>\<open>xpubA\<close> has no encrypted private key,
  \<^verbatim>\<open>xpubB\<close>, \<^verbatim>\<open>xpubC\<close> and \<^verbatim>\<open>xpub1\<close> have one. The decryption primitive accepts the blob
  \<^verbatim>\<open>enc1\<close> under the passphrase \<^verbatim>\<open>correct\<close> and throws on everything else. The broadcast
  endpoint answers with the transaction and the hash \<^verbatim>\<open>h1\<close>, and with a fee field of its
  own that the wallet does not read.
\<close>

definition ref :: "string \<Rightarrow> keychain" where
  "ref x = \<lparr>xpub = JString x, encryptedXprv = JUndefined, xprv = JUndefined\<rparr>"

definition stored :: "string \<Rightarrow> jsval \<Rightarrow> keychain" where
  "stored x blob = \<lparr>xpub = JString x, encryptedXprv = blob, xprv = JUndefined\<rparr>"

definition example_bitgo :: bitgo where
  "example_bitgo =
     \<lparr>keychains_get = (\<lambda>x.
        if x = JString ''xpubA'' then Inr (stored ''xpubA'' JUndefined)
        else if x = JString ''xpubB'' then Inr (stored ''xpubB'' (JString ''encB''))
        else if x = JString ''xpubC'' then Inr (stored ''xpubC'' (JString ''encC''))
        else if x = JString ''xpub1'' then Inr (stored ''xpub1'' (JString ''enc1''))
        else Inl (Error ''not found'')),
      decrypt = (\<lambda>password opaque.
        if password = JString ''correct'' \<and> opaque = JString ''enc1'' then Inr (JString ''xprv1'')
        else Inl (Error ''ccm: tag does not match'')),
      post_tx_send = (\<lambda>tx.
        Inr [(''transaction'', tx), (''transactionHash'', JString ''h1''),
             (''fee'', JNumber 77)])\<rparr>"

text \<open>
  A client whose decryption primitive always throws, with the password it was given in
  the message of its error.
\<close>

definition leaky_bitgo :: bitgo where
  "leaky_bitgo =
     example_bitgo\<lparr>decrypt := (\<lambda>password opaque.
        case password of
          JString s \<Rightarrow> Inl (Error (''cannot decrypt with password '' @ s))
        | _ \<Rightarrow> Inl (TypeError ''password is not a string''))\<rparr>"

text \<open>
  A Transaction Builder whose state is the fee it computed: it charges 1000 satoshis,
  serialises to \<^verbatim>\<open>deadbeef\<close> and signs with any keychain that carries a private key.
  The second one never completes a signature.
\<close>

definition example_builder :: "int transaction_builder" where
  "example_builder =
     \<lparr>prepare = (\<lambda>w a n f. Inr 1000),
      sign = (\<lambda>tb kc. if truthy (xprv kc) then Inr (Some tb) else Inl (Error ''no private key'')),
      tb_tx = (\<lambda>tb. JString ''deadbeef''),
      tb_fee = (\<lambda>tb. JNumber tb)\<rparr>"

definition unsigned_builder :: "int transaction_builder" where
  "unsigned_builder = example_builder\<lparr>sign := (\<lambda>tb kc. Inr None)\<rparr>"

definition example_data :: "keychain list \<Rightarrow> wallet_data" where
  "example_data ks =
     \<lparr>wallet_id = JString ''2Mxyz...'', label = JString ''my wallet'', balance = JNumber 500000,
      wallet_private = Some \<lparr>private_keychains = Some ks\<rparr>\<rparr>"

definition bare_data :: wallet_data where
  "bare_data =
     \<lparr>wallet_id = JString ''2Mxyz...'', label = JString ''my wallet'', balance = JNumber 500000,
      wallet_private = None\<rparr>"

definition example_params :: "int \<Rightarrow> string \<Rightarrow> sendCoins_params" where
  "example_params n passphrase =
     \<lparr>address = JString ''1ABC'', amount = JNumber n, walletPassphrase = JString passphrase\<rparr>"

section \<open>The keychain resolver\<close>

lemma tryKeyChain_step:
  assumes "keychains self = Some ks" "index < length ks"
  shows "tryKeyChain self index =
     (case keychains_get (bitgo self) (xpub (ks ! index)) of
        Inl e \<Rightarrow> (Rejected e, [KeychainGet (xpub (ks ! index))])
      | Inr kc \<Rightarrow>
          if truthy (encryptedXprv kc) then (Resolved kc, [KeychainGet (xpub (ks ! index))])
          else (case tryKeyChain self (Suc index) of
                  (r, t) \<Rightarrow> (settled r, KeychainGet (xpub (ks ! index)) # t)))"
  using assms
  by (subst tryKeyChain.simps) (simp add: thenP_def call_def Let_def split: sum.splits prod.splits)

lemma tryKeyChain_end:
  assumes "keychains self = Some ks" "length ks \<le> index"
  shows "tryKeyChain self index = (Thrown (TypeError ''self.reject is not a function''), [])"
  using assms by (subst tryKeyChain.simps) (simp add: reject_def)

lemma tryKeyChain_exhaust:
  assumes "keychains self = Some ks"
    and "\<forall>a\<in>set (drop index ks).
           \<exists>r. keychains_get (bitgo self) (xpub a) = Inr r \<and> \<not> truthy (encryptedXprv r)"
  shows "tryKeyChain self index =
     (if length ks \<le> index then Thrown (TypeError ''self.reject is not a function'')
      else Rejected (TypeError ''self.reject is not a function''),
      map (\<lambda>a. KeychainGet (xpub a)) (drop index ks))"
  using assms(2)
proof (induction "length ks - index" arbitrary: index)
  case 0
  then show ?case using tryKeyChain_end [OF assms(1)] by simp
next
  case (Suc n)
  then have lt: "index < length ks" by simp
  then have d: "drop index ks = ks ! index # drop (Suc index) ks"
    by (simp add: Cons_nth_drop_Suc)
  from Suc.prems d obtain r where
    r: "keychains_get (bitgo self) (xpub (ks ! index)) = Inr r" "\<not> truthy (encryptedXprv r)"
    by auto
  from Suc.prems d have rest: "\<forall>a\<in>set (drop (Suc index) ks).
      \<exists>r. keychains_get (bitgo self) (xpub a) = Inr r \<and> \<not> truthy (encryptedXprv r)"
    by simp
  from Suc.hyps(2) have "n = length ks - Suc index" by simp
  from Suc.hyps(1) [OF this rest] lt show ?case
    by (simp add: tryKeyChain_step [OF assms(1) lt] r d)
qed

lemma tryKeyChain_first:
  assumes "keychains self = Some (pre @ c # post)"
    and "keychains_get (bitgo self) (xpub c) = Inr k" and "truthy (encryptedXprv k)"
    and "index \<le> length pre"
    and "\<forall>a\<in>set (drop index pre).
           \<exists>r. keychains_get (bitgo self) (xpub a) = Inr r \<and> \<not> truthy (encryptedXprv r)"
  shows "tryKeyChain self index =
     (Resolved k, map (\<lambda>a. KeychainGet (xpub a)) (drop index pre @ [c]))"
  using assms(4,5)
proof (induction "length pre - index" arbitrary: index)
  case 0
  then have "index = length pre" by simp
  then show ?case
    using tryKeyChain_step [OF assms(1), of index] assms(2,3) by simp
next
  case (Suc n)
  then have lt: "index < length pre" by simp
  then have d: "drop index pre = pre ! index # drop (Suc index) pre"
    by (simp add: Cons_nth_drop_Suc)
  from lt have nth: "(pre @ c # post) ! index = pre ! index" by (simp add: nth_append)
  from Suc.prems d obtain r where
    r: "keychains_get (bitgo self) (xpub (pre ! index)) = Inr r" "\<not> truthy (encryptedXprv r)"
    by auto
  from Suc.prems d have rest: "\<forall>a\<in>set (drop (Suc index) pre).
      \<exists>r. keychains_get (bitgo self) (xpub a) = Inr r \<and> \<not> truthy (encryptedXprv r)"
    by simp
  from Suc.hyps(2) have n: "n = length pre - Suc index" by simp
  from lt have le: "Suc index \<le> length pre" by simp
  from lt have lt': "index < length (pre @ c # post)" by simp
  from Suc.hyps(1) [OF n le rest] show ?case
    by (simp add: tryKeyChain_step [OF assms(1) lt'] nth r d)
qed

text \<open>
  Claim C2. Let the wallet's keychains be \<open>pre @ c # post\<close>, where the keychain service
  answers every candidate of \<open>pre\<close> with a record that has no encrypted private key
  (\<^verbatim>\<open>encryptedXprv\<close> is not truthy) and answers \<open>c\<close> with a record \<open>k\<close> that has one. Then
  \<^verbatim>\<open>getEncryptedUserKeychain\<close> resolves with \<open>k\<close>, and the calls it made are exactly the
  fetches of \<open>pre\<close> and then of \<open>c\<close>, one each and in the order of the list: no
  candidate of \<open>post\<close> is fetched. For the candidates A, B, C of the spec the witness
  gives B after the fetches of A and B.
\<close>

theorem getEncryptedUserKeychain_first_match:
  assumes "keychains self = Some (pre @ c # post)"
    and "\<forall>a\<in>set pre.
           \<exists>r. keychains_get (bitgo self) (xpub a) = Inr r \<and> \<not> truthy (encryptedXprv r)"
    and "keychains_get (bitgo self) (xpub c) = Inr k"
    and "truthy (encryptedXprv k)"
  shows "getEncryptedUserKeychain self =
     (Resolved k, map (\<lambda>a. KeychainGet (xpub a)) pre @ [KeychainGet (xpub c)])"
  using tryKeyChain_first [OF assms(1,3,4), of 0] assms(2)
  by (simp add: getEncryptedUserKeychain_def)

theorem getEncryptedUserKeychain_first_match_witness:
  "getEncryptedUserKeychain
     (Wallet example_bitgo (example_data [ref ''xpubA'', ref ''xpubB'', ref ''xpubC''])) =
   (Resolved (stored ''xpubB'' (JString ''encB'')),
    [KeychainGet (JString ''xpubA''), KeychainGet (JString ''xpubB'')])"
  using getEncryptedUserKeychain_first_match
    [of "Wallet example_bitgo (example_data [ref ''xpubA'', ref ''xpubB'', ref ''xpubC''])"
        "[ref ''xpubA'']" "ref ''xpubB''" "[ref ''xpubC'']" "stored ''xpubB'' (JString ''encB'')"]
  by (simp add: Wallet_def example_data_def example_bitgo_def ref_def stored_def)

text \<open>
  Claim C6. When the keychain service answers every candidate of the wallet's list with
  a record that has no encrypted private key, \<^verbatim>\<open>getEncryptedUserKeychain\<close> does fetch every
  candidate, in order, and then reaches the call of \<^verbatim>\<open>self.reject\<close> with the message
  \<^verbatim>\<open>No encrypted keychains on this wallet.\<close> (line 178). That call raises a
  \<^verbatim>\<open>TypeError\<close>: for the empty list
  \<^verbatim>\<open>getEncryptedUserKeychain\<close> throws it, and after one fetch or more its promise is
  rejected with it. The error \<^verbatim>\<open>No encrypted keychains on this wallet.\<close> (the spec's
  \<^verbatim>\<open>NoKeychainFound\<close>) is not produced.
\<close>

theorem getEncryptedUserKeychain_exhausted:
  assumes "keychains self = Some ks"
    and "\<forall>a\<in>set ks.
           \<exists>r. keychains_get (bitgo self) (xpub a) = Inr r \<and> \<not> truthy (encryptedXprv r)"
  shows "getEncryptedUserKeychain self =
     (if ks = [] then Thrown (TypeError ''self.reject is not a function'')
      else Rejected (TypeError ''self.reject is not a function''),
      map (\<lambda>a. KeychainGet (xpub a)) ks)"
  using tryKeyChain_exhaust [OF assms(1), of 0] assms(2)
  by (simp add: getEncryptedUserKeychain_def)

theorem getEncryptedUserKeychain_exhausted_witness:
  "getEncryptedUserKeychain (Wallet example_bitgo (example_data [])) =
     (Thrown (TypeError ''self.reject is not a function''), [])
   \<and> getEncryptedUserKeychain
       (Wallet example_bitgo (example_data [ref ''xpubA'', ref ''xpubA''])) =
     (Rejected (TypeError ''self.reject is not a function''),
      [KeychainGet (JString ''xpubA''), KeychainGet (JString ''xpubA'')])"
  using getEncryptedUserKeychain_exhausted
    [of "Wallet example_bitgo (example_data [])" "[]"]
    getEncryptedUserKeychain_exhausted
    [of "Wallet example_bitgo (example_data [ref ''xpubA'', ref ''xpubA''])"
        "[ref ''xpubA'', ref ''xpubA'']"]
  by (simp add: Wallet_def example_data_def example_bitgo_def ref_def stored_def)

section \<open>What the resolver calls\<close>

text \<open>The resolver talks to the keychain service only.\<close>

lemma tryKeyChain_only_fetches:
  "filter (\<lambda>ev. \<not> is_fetch ev) (snd (tryKeyChain self index)) = []"
proof (induction self index rule: tryKeyChain.induct)
  case (1 self index)
  show ?case
  proof (cases "keychains self")
    case None
    then show ?thesis by (subst tryKeyChain.simps) simp
  next
    case (Some ks)
    show ?thesis
    proof (cases "length ks \<le> index")
      case True
      with Some show ?thesis by (subst tryKeyChain.simps) simp
    next
      case False
      then have lt: "index < length ks" by simp
      show ?thesis
        using 1 [OF Some False refl] 
        by (auto simp add: tryKeyChain_step [OF Some lt] split: sum.splits prod.splits)
    qed
  qed
qed

lemma getEncryptedUserKeychain_only_fetches:
  assumes "getEncryptedUserKeychain self = (r, t)"
  shows "filter (\<lambda>ev. is_builder_call ev \<or> is_broadcast ev) t = []"
proof -
  have "filter (\<lambda>ev. \<not> is_fetch ev) t = []"
    using tryKeyChain_only_fetches [of self 0] assms by (simp add: getEncryptedUserKeychain_def)
  then have "\<forall>ev\<in>set t. is_fetch ev" by (simp add: filter_empty_conv)
  moreover have "\<And>ev. is_fetch ev \<Longrightarrow> \<not> (is_builder_call ev \<or> is_broadcast ev)"
    by (case_tac ev) simp_all
  ultimately show ?thesis by (auto simp: filter_empty_conv)
qed

text \<open>The resolver never reads the broadcast endpoint of the client.\<close>

lemma tryKeyChain_broadcast_irrelevant:
  "tryKeyChain (self\<lparr>bitgo := (bitgo self)\<lparr>post_tx_send := post'\<rparr>\<rparr>) index =
   tryKeyChain self index"
proof (induction self index rule: tryKeyChain.induct)
  case (1 self index)
  let ?self' = "self\<lparr>bitgo := (bitgo self)\<lparr>post_tx_send := post'\<rparr>\<rparr>"
  show ?case
  proof (cases "keychains self")
    case None
    then show ?thesis by (simp add: tryKeyChain.simps [of self] tryKeyChain.simps [of ?self'])
  next
    case (Some ks)
    then have Some': "keychains ?self' = Some ks" by simp
    show ?thesis
    proof (cases "length ks \<le> index")
      case True
      then show ?thesis
        by (simp add: tryKeyChain_end [OF Some] tryKeyChain_end [OF Some'])
    next
      case False
      then have lt: "index < length ks" by simp
      show ?thesis
        using 1 [OF Some False refl]
        by (auto simp add: tryKeyChain_step [OF Some lt] tryKeyChain_step [OF Some' lt]
            split: sum.splits prod.splits)
    qed
  qed
qed

section \<open>The example wallet\<close>

lemma example_resolve:
  "getEncryptedUserKeychain (Wallet example_bitgo (example_data [ref ''xpub1''])) =
     (Resolved (stored ''xpub1'' (JString ''enc1'')), [KeychainGet (JString ''xpub1'')])"
  using tryKeyChain_first
    [of "Wallet example_bitgo (example_data [ref ''xpub1''])" "[]" "ref ''xpub1''" "[]"
        "stored ''xpub1'' (JString ''enc1'')" 0]
  by (simp add: getEncryptedUserKeychain_def Wallet_def example_data_def example_bitgo_def
      ref_def stored_def)

lemma example_resolve_B:
  "getEncryptedUserKeychain (Wallet leaky_bitgo (example_data [ref ''xpubA'', ref ''xpubB''])) =
     (Resolved (stored ''xpubB'' (JString ''encB'')),
      [KeychainGet (JString ''xpubA''), KeychainGet (JString ''xpubB'')])"
  using tryKeyChain_first
    [of "Wallet leaky_bitgo (example_data [ref ''xpubA'', ref ''xpubB''])" "[ref ''xpubA'']"
        "ref ''xpubB''" "[]" "stored ''xpubB'' (JString ''encB'')" 0]
  by (simp add: getEncryptedUserKeychain_def Wallet_def example_data_def leaky_bitgo_def
      example_bitgo_def ref_def stored_def)

lemma field_Nil: "field [] name = JUndefined"
  by (simp add: field_def)

lemma field_Cons: "field ((k, v) # obj) name = (if k = name then v else field obj name)"
  by (simp add: field_def)

lemma example_spend:
  "sendCoins example_builder (Wallet example_bitgo (example_data [ref ''xpub1'']))
     (example_params 100000 ''correct'') =
   (Resolved (Some [(''tx'', JString ''deadbeef''), (''hash'', JString ''h1''),
                    (''fee'', JNumber 1000)]),
    [KeychainGet (JString ''xpub1''), Decrypt (JString ''correct'') (JString ''enc1''),
     Prepare (JString ''1ABC'') (JNumber 100000) JUndefined,
     Sign \<lparr>xpub = JString ''xpub1'', encryptedXprv = JString ''enc1'', xprv = JString ''xprv1''\<rparr>,
     TxSend (JString ''deadbeef'')])"
  using example_resolve
  by (simp add: sendCoins_def sendCoins_unlock_def sendCoins_send_def sendTransaction_def
      createTransaction_def thenP_def call_def example_params_def Wallet_def example_bitgo_def
      example_builder_def example_data_def stored_def field_Cons)

section \<open>Validation of the request\<close>

text \<open>
  Claim C4. \<^verbatim>\<open>sendCoins\<close> with an amount that is not of type number, or that is a number
  at most 0, throws before it returns a promise, and no collaborator has been called
  (the trace is empty): no keychain fetch, no call of the Transaction Builder, no
  broadcast. When the address and the passphrase are in order the error is
  \<^verbatim>\<open>must send positive number of Satoshis!\<close> for an amount at most 0 (the spec's
  \<^verbatim>\<open>AmountError\<close>) and \<^verbatim>\<open>invalid argument for amount - number expected\<close> for an amount
  that is not a number (the spec's \<^verbatim>\<open>ValidationError\<close>); otherwise it is the error of
  \<^verbatim>\<open>validateParams\<close>, which is checked first. \<^verbatim>\<open>createTransaction\<close> throws in the same
  way, before the Transaction Builder is called.
\<close>

theorem sendCoins_bad_amount:
  "(typeof (amount params) \<noteq> ''number'' \<or> le_zero (amount params) \<longrightarrow>
      (\<exists>e. sendCoins TransactionBuilder self params = (Thrown e, [])))
   \<and> (validateParams [(''address'', address params),
         (''walletPassphrase'', walletPassphrase params)] = None \<longrightarrow>
       (\<forall>n. amount params = JNumber n \<and> n \<le> 0 \<longrightarrow>
          sendCoins TransactionBuilder self params =
            (Thrown (Error ''must send positive number of Satoshis!''), []))
       \<and> (typeof (amount params) \<noteq> ''number'' \<longrightarrow>
          sendCoins TransactionBuilder self params =
            (Thrown (Error ''invalid argument for amount - number expected''), [])))
   \<and> (typeof (amount cparams) \<noteq> ''number'' \<or> le_zero (amount cparams) \<longrightarrow>
      (\<exists>e. createTransaction TransactionBuilder self cparams = (Thrown e, [])))"
  by (auto simp add: sendCoins_def createTransaction_def split: option.splits)

theorem sendCoins_bad_amount_witness:
  "sendCoins example_builder (Wallet example_bitgo (example_data [ref ''xpub1'']))
     (example_params 0 ''correct'') =
     (Thrown (Error ''must send positive number of Satoshis!''), [])
   \<and> sendCoins example_builder (Wallet example_bitgo (example_data [ref ''xpub1'']))
     (example_params (- 100000) ''correct'') =
     (Thrown (Error ''must send positive number of Satoshis!''), [])
   \<and> sendCoins example_builder (Wallet example_bitgo (example_data [ref ''xpub1'']))
     \<lparr>address = JString ''1ABC'', amount = JString ''100000'',
      walletPassphrase = JString ''correct''\<rparr> =
     (Thrown (Error ''invalid argument for amount - number expected''), [])"
  using sendCoins_bad_amount
    [of "example_params 0 ''correct''" example_builder
        "Wallet example_bitgo (example_data [ref ''xpub1''])"]
    sendCoins_bad_amount
    [of "example_params (- 100000) ''correct''" example_builder
        "Wallet example_bitgo (example_data [ref ''xpub1''])"]
    sendCoins_bad_amount
    [of "\<lparr>address = JString ''1ABC'', amount = JString ''100000'',
          walletPassphrase = JString ''correct''\<rparr>" example_builder
        "Wallet example_bitgo (example_data [ref ''xpub1''])"]
  by (simp add: example_params_def)

section \<open>Unlocking\<close>

lemma sendCoins_decrypt_failure:
  assumes "validateParams [(''address'', address params),
             (''walletPassphrase'', walletPassphrase params)] = None"
    and "typeof (amount params) = ''number''" and "\<not> le_zero (amount params)"
    and "getEncryptedUserKeychain self = (Resolved kc, t)"
    and "decrypt (bitgo self) (walletPassphrase params) (encryptedXprv kc) = Inl e"
  shows "sendCoins TransactionBuilder self params =
     (Rejected (TypeError ''self.reject is not a function''),
      t @ [Decrypt (walletPassphrase params) (encryptedXprv kc)])"
  using assms by (simp add: sendCoins_def sendCoins_unlock_def thenP_def reject_def)

text \<open>
  Claim C3. Take a request that passes the synchronous validation, on a wallet whose
  resolver finds a keychain \<open>kc\<close>. When the decryption primitive throws on the blob of
  \<open>kc\<close> and the passphrase of the request, the \<^verbatim>\<open>catch\<close> block calls
  \<^verbatim>\<open>self.reject('Unable to decrypt user keychain', callback)\<close> (line 299), which raises a
  \<^verbatim>\<open>TypeError\<close> inside the handler: the promise of \<^verbatim>\<open>sendCoins\<close> is rejected with that
  \<^verbatim>\<open>TypeError\<close>, not with \<^verbatim>\<open>Unable to decrypt user keychain\<close> (the spec's
  \<^verbatim>\<open>DecryptionError\<close>). The trace holds no call of the Transaction Builder and no call
  of the broadcast endpoint.
\<close>

theorem sendCoins_wrong_passphrase:
  assumes "validateParams [(''address'', address params),
             (''walletPassphrase'', walletPassphrase params)] = None"
    and "typeof (amount params) = ''number''" and "\<not> le_zero (amount params)"
    and "getEncryptedUserKeychain self = (Resolved kc, t)"
    and "decrypt (bitgo self) (walletPassphrase params) (encryptedXprv kc) = Inl e"
  shows "fst (sendCoins TransactionBuilder self params) =
           Rejected (TypeError ''self.reject is not a function'')
       \<and> filter (\<lambda>ev. is_builder_call ev \<or> is_broadcast ev)
            (snd (sendCoins TransactionBuilder self params)) = []"
  using sendCoins_decrypt_failure [OF assms, of TransactionBuilder]
    getEncryptedUserKeychain_only_fetches [OF assms(4)]
  by simp

theorem sendCoins_wrong_passphrase_witness:
  "fst (sendCoins example_builder (Wallet example_bitgo (example_data [ref ''xpub1'']))
          (example_params 100000 ''wrong'')) =
     Rejected (TypeError ''self.reject is not a function'')
   \<and> filter (\<lambda>ev. is_builder_call ev \<or> is_broadcast ev)
        (snd (sendCoins example_builder (Wallet example_bitgo (example_data [ref ''xpub1'']))
          (example_params 100000 ''wrong''))) = []"
  using sendCoins_wrong_passphrase
    [of "example_params 100000 ''wrong''" "Wallet example_bitgo (example_data [ref ''xpub1''])"
        "stored ''xpub1'' (JString ''enc1'')" "[KeychainGet (JString ''xpub1'')]"
        "Error ''ccm: tag does not match''" example_builder]
    example_resolve
  by (simp add: example_params_def Wallet_def example_bitgo_def stored_def)

text \<open>
  Claim C8. Take any two runs of \<^verbatim>\<open>sendCoins\<close> in which the decryption primitive throws:
  two wallets, two clients, two builders, two requests, two errors \<open>e\<close> and \<open>e'\<close> of the
  primitive. Both promises are rejected with the same error, and the passphrase, the
  blob and the error of the primitive do not show in it. But that error is the
  \<^verbatim>\<open>TypeError\<close> of the call of \<^verbatim>\<open>self.reject\<close> (line 299): the message
  \<^verbatim>\<open>Unable to decrypt user keychain\<close> does not reach the caller.
\<close>

theorem sendCoins_decrypt_error_generic:
  assumes "validateParams [(''address'', address params),
             (''walletPassphrase'', walletPassphrase params)] = None"
    and "typeof (amount params) = ''number''" and "\<not> le_zero (amount params)"
    and "getEncryptedUserKeychain self = (Resolved kc, t)"
    and "decrypt (bitgo self) (walletPassphrase params) (encryptedXprv kc) = Inl e"
    and "validateParams [(''address'', address params'),
             (''walletPassphrase'', walletPassphrase params')] = None"
    and "typeof (amount params') = ''number''" and "\<not> le_zero (amount params')"
    and "getEncryptedUserKeychain self' = (Resolved kc', t')"
    and "decrypt (bitgo self') (walletPassphrase params') (encryptedXprv kc') = Inl e'"
  shows "fst (sendCoins TransactionBuilder self params) =
           Rejected (TypeError ''self.reject is not a function'')
       \<and> fst (sendCoins TransactionBuilder' self' params') =
           fst (sendCoins TransactionBuilder self params)"
  using sendCoins_decrypt_failure [OF assms(1-5), of TransactionBuilder]
    sendCoins_decrypt_failure [OF assms(6-10), of TransactionBuilder']
  by simp

theorem sendCoins_decrypt_error_generic_witness:
  "fst (sendCoins example_builder (Wallet example_bitgo (example_data [ref ''xpub1'']))
          (example_params 100000 ''wrong'')) =
     Rejected (TypeError ''self.reject is not a function'')
   \<and> fst (sendCoins unsigned_builder
          (Wallet leaky_bitgo (example_data [ref ''xpubA'', ref ''xpubB'']))
          (example_params 5 ''hunter2'')) =
     fst (sendCoins example_builder (Wallet example_bitgo (example_data [ref ''xpub1'']))
          (example_params 100000 ''wrong''))"
  using sendCoins_decrypt_error_generic
    [of "example_params 100000 ''wrong''" "Wallet example_bitgo (example_data [ref ''xpub1''])"
        "stored ''xpub1'' (JString ''enc1'')" "[KeychainGet (JString ''xpub1'')]"
        "Error ''ccm: tag does not match''"
        "example_params 5 ''hunter2''"
        "Wallet leaky_bitgo (example_data [ref ''xpubA'', ref ''xpubB''])"
        "stored ''xpubB'' (JString ''encB'')"
        "[KeychainGet (JString ''xpubA''), KeychainGet (JString ''xpubB'')]"
        "Error ''cannot decrypt with password hunter2''"
        example_builder unsigned_builder]
    example_resolve example_resolve_B
  by (simp add: example_params_def Wallet_def example_bitgo_def leaky_bitgo_def stored_def)

section \<open>Assembling and broadcasting\<close>

text \<open>When a promise chain is resolved, every step of it was.\<close>

lemma settled_Resolved: "settled r = Resolved v \<longleftrightarrow> r = Resolved v"
  by (cases r) simp_all

lemma thenP_Resolved:
  "thenP p h = (Resolved v, t) \<longleftrightarrow>
     (\<exists>u t1 t2. p = (Resolved u, t1) \<and> h u = (Resolved v, t2) \<and> t = t1 @ t2)"
  by (cases p; cases "fst p") (auto simp: thenP_def settled_Resolved split: prod.splits)

lemma call_Resolved: "call ev a = (Resolved v, t) \<longleftrightarrow> a = Inr v \<and> t = [ev]"
  by (cases a) (auto simp: call_def)

lemma sendTransaction_Resolved:
  "sendTransaction self tx = (Resolved r, t) \<longleftrightarrow>
     validateParams [(''tx'', tx)] = None \<and>
     (\<exists>body. post_tx_send (bitgo self) tx = Inr body \<and> t = [TxSend tx] \<and>
        r = [(''tx'', field body ''transaction''), (''hash'', field body ''transactionHash'')])"
  by (cases "validateParams [(''tx'', tx)]")
    (auto simp: sendTransaction_def thenP_Resolved call_Resolved simp del: validateParams.simps)

lemma sendCoins_unlock_Resolved:
  "sendCoins_unlock TransactionBuilder self params kc = (Resolved u, t) \<longleftrightarrow>
     (\<exists>plain tc. decrypt (bitgo self) (walletPassphrase params) (encryptedXprv kc) = Inr plain \<and>
        createTransaction TransactionBuilder self
          \<lparr>address = address params, amount = amount params, fee = JUndefined,
           keychain = Some (kc\<lparr>xprv := plain\<rparr>)\<rparr> = (Resolved u, tc) \<and>
        t = Decrypt (walletPassphrase params) (encryptedXprv kc) # tc)"
  by (cases "decrypt (bitgo self) (walletPassphrase params) (encryptedXprv kc)")
    (auto simp: sendCoins_unlock_def reject_def split: prod.splits)

lemma sendCoins_send_Resolved:
  "sendCoins_send self u = (Resolved result, t) \<longleftrightarrow>
     (\<exists>transaction body. u = Some transaction \<and>
        validateParams [(''tx'', field transaction ''tx'')] = None \<and>
        post_tx_send (bitgo self) (field transaction ''tx'') = Inr body \<and>
        result = Some [(''tx'', field body ''transaction''),
                       (''hash'', field body ''transactionHash''),
                       (''fee'', field transaction ''fee'')] \<and>
        t = [TxSend (field transaction ''tx'')])"
  by (cases u)
    (auto simp: sendCoins_send_def thenP_Resolved sendTransaction_Resolved field_Nil field_Cons
      simp del: validateParams.simps)

lemma sendCoins_Resolved:
  "sendCoins TransactionBuilder self params = (Resolved result, t) \<longleftrightarrow>
     validateParams [(''address'', address params),
        (''walletPassphrase'', walletPassphrase params)] = None \<and>
     typeof (amount params) = ''number'' \<and> \<not> le_zero (amount params) \<and>
     (\<exists>kc t1 plain transaction tc body.
        getEncryptedUserKeychain self = (Resolved kc, t1) \<and>
        decrypt (bitgo self) (walletPassphrase params) (encryptedXprv kc) = Inr plain \<and>
        createTransaction TransactionBuilder self
          \<lparr>address = address params, amount = amount params, fee = JUndefined,
           keychain = Some (kc\<lparr>xprv := plain\<rparr>)\<rparr> = (Resolved (Some transaction), tc) \<and>
        validateParams [(''tx'', field transaction ''tx'')] = None \<and>
        post_tx_send (bitgo self) (field transaction ''tx'') = Inr body \<and>
        result = Some [(''tx'', field body ''transaction''),
                       (''hash'', field body ''transactionHash''),
                       (''fee'', field transaction ''fee'')] \<and>
        t = t1 @ Decrypt (walletPassphrase params) (encryptedXprv kc) # tc @
              [TxSend (field transaction ''tx'')])"
  by (cases "validateParams [(''address'', address params),
        (''walletPassphrase'', walletPassphrase params)]")
    (auto simp: sendCoins_def thenP_Resolved sendCoins_unlock_Resolved sendCoins_send_Resolved
      simp del: validateParams.simps)

lemma createTransaction_broadcast_irrelevant:
  "createTransaction TransactionBuilder (self\<lparr>bitgo := (bitgo self)\<lparr>post_tx_send := post'\<rparr>\<rparr>) cparams =
   createTransaction TransactionBuilder self cparams"
  by (simp add: createTransaction_def split: option.splits)

text \<open>
  Claim C1. Take a request that passes the synchronous validation, on a wallet whose
  resolver finds a keychain that the primitive decrypts, and a Transaction Builder whose
  \<^verbatim>\<open>prepare\<close> succeeds and whose \<^verbatim>\<open>sign\<close> answers with nothing. Then
  \<^verbatim>\<open>createTransaction\<close> is resolved with \<^verbatim>\<open>undefined\<close>: no result and no error. But
  \<^verbatim>\<open>sendCoins\<close> goes on to read \<^verbatim>\<open>transaction.tx\<close> of that \<^verbatim>\<open>undefined\<close> (line 312), and
  its promise is rejected with a \<^verbatim>\<open>TypeError\<close>: it does not end with no result and no
  error. The broadcast endpoint is not called: the last call is the one of \<^verbatim>\<open>sign\<close>.
\<close>

theorem sendCoins_no_transaction:
  assumes "validateParams [(''address'', address params),
             (''walletPassphrase'', walletPassphrase params)] = None"
    and "typeof (amount params) = ''number''" and "\<not> le_zero (amount params)"
    and "getEncryptedUserKeychain self = (Resolved kc, t)"
    and "decrypt (bitgo self) (walletPassphrase params) (encryptedXprv kc) = Inr plain"
    and "prepare TransactionBuilder (wallet self) (address params) (amount params) JUndefined
           = Inr tb"
    and "sign TransactionBuilder tb (kc\<lparr>xprv := plain\<rparr>) = Inr None"
  shows "createTransaction TransactionBuilder self
           \<lparr>address = address params, amount = amount params, fee = JUndefined,
            keychain = Some (kc\<lparr>xprv := plain\<rparr>)\<rparr> =
           (Resolved None,
            [Prepare (address params) (amount params) JUndefined, Sign (kc\<lparr>xprv := plain\<rparr>)])
       \<and> sendCoins TransactionBuilder self params =
           (Rejected (TypeError ''Cannot read property tx of undefined''),
            t @ [Decrypt (walletPassphrase params) (encryptedXprv kc),
                 Prepare (address params) (amount params) JUndefined,
                 Sign (kc\<lparr>xprv := plain\<rparr>)])"
proof -
  from assms(1) have a: "validateParams [(''address'', address params)] = None"
    by (simp split: if_splits)
  have tr: "createTransaction TransactionBuilder self
           \<lparr>address = address params, amount = amount params, fee = JUndefined,
            keychain = Some (kc\<lparr>xprv := plain\<rparr>)\<rparr> =
           (Resolved None,
            [Prepare (address params) (amount params) JUndefined, Sign (kc\<lparr>xprv := plain\<rparr>)])"
    using a assms(2,3,6,7)
    by (simp add: createTransaction_def thenP_def call_def del: validateParams.simps)
  have "sendCoins_unlock TransactionBuilder self params kc =
     (Resolved None,
      [Decrypt (walletPassphrase params) (encryptedXprv kc),
       Prepare (address params) (amount params) JUndefined, Sign (kc\<lparr>xprv := plain\<rparr>)])"
    using tr assms(5) by (simp add: sendCoins_unlock_def)
  with assms(1-4) tr show ?thesis
    by (simp add: sendCoins_def sendCoins_send_def thenP_def del: validateParams.simps)
qed

theorem sendCoins_no_transaction_witness:
  "createTransaction unsigned_builder (Wallet example_bitgo (example_data [ref ''xpub1'']))
     \<lparr>address = JString ''1ABC'', amount = JNumber 100000, fee = JUndefined,
      keychain = Some \<lparr>xpub = JString ''xpub1'', encryptedXprv = JString ''enc1'',
                       xprv = JString ''xprv1''\<rparr>\<rparr> =
     (Resolved None,
      [Prepare (JString ''1ABC'') (JNumber 100000) JUndefined,
       Sign \<lparr>xpub = JString ''xpub1'', encryptedXprv = JString ''enc1'', xprv = JString ''xprv1''\<rparr>])
   \<and> sendCoins unsigned_builder (Wallet example_bitgo (example_data [ref ''xpub1'']))
       (example_params 100000 ''correct'') =
     (Rejected (TypeError ''Cannot read property tx of undefined''),
      [KeychainGet (JString ''xpub1''), Decrypt (JString ''correct'') (JString ''enc1''),
       Prepare (JString ''1ABC'') (JNumber 100000) JUndefined,
       Sign \<lparr>xpub = JString ''xpub1'', encryptedXprv = JString ''enc1'', xprv = JString ''xprv1''\<rparr>])"
  using sendCoins_no_transaction
    [of "example_params 100000 ''correct''" "Wallet example_bitgo (example_data [ref ''xpub1''])"
        "stored ''xpub1'' (JString ''enc1'')" "[KeychainGet (JString ''xpub1'')]"
        "JString ''xprv1''" unsigned_builder 1000]
    example_resolve
  by (simp add: example_params_def Wallet_def example_bitgo_def unsigned_builder_def
      example_builder_def stored_def)

text \<open>
  Claim C5. When \<^verbatim>\<open>sendCoins\<close> is resolved, its result is an object whose \<^verbatim>\<open>fee\<close> is the
  \<^verbatim>\<open>fee\<close> of the transaction that \<^verbatim>\<open>createTransaction\<close> was resolved with, for the
  keychain the resolver found, unlocked. The same holds with any other broadcast
  endpoint in place of the client's: whatever the response reports, the fee of a
  successful spend is the one fixed by \<^verbatim>\<open>createTransaction\<close>.
\<close>

theorem sendCoins_fee_fixed_at_assembly:
  assumes "sendCoins TransactionBuilder self params = (Resolved result, t)"
  shows "\<exists>kc t1 plain transaction tc r.
      getEncryptedUserKeychain self = (Resolved kc, t1) \<and>
      decrypt (bitgo self) (walletPassphrase params) (encryptedXprv kc) = Inr plain \<and>
      createTransaction TransactionBuilder self
        \<lparr>address = address params, amount = amount params, fee = JUndefined,
         keychain = Some (kc\<lparr>xprv := plain\<rparr>)\<rparr> = (Resolved (Some transaction), tc) \<and>
      result = Some r \<and> field r ''fee'' = field transaction ''fee'' \<and>
      (\<forall>post' result' t'.
         sendCoins TransactionBuilder (self\<lparr>bitgo := (bitgo self)\<lparr>post_tx_send := post'\<rparr>\<rparr>) params =
           (Resolved result', t') \<longrightarrow>
         (\<exists>r'. result' = Some r' \<and> field r' ''fee'' = field transaction ''fee''))"
proof -
  from assms obtain kc t1 plain transaction tc body where
    kc: "getEncryptedUserKeychain self = (Resolved kc, t1)"
    and plain: "decrypt (bitgo self) (walletPassphrase params) (encryptedXprv kc) = Inr plain"
    and tr: "createTransaction TransactionBuilder self
          \<lparr>address = address params, amount = amount params, fee = JUndefined,
           keychain = Some (kc\<lparr>xprv := plain\<rparr>)\<rparr> = (Resolved (Some transaction), tc)"
    and result: "result = Some [(''tx'', field body ''transaction''),
                       (''hash'', field body ''transactionHash''),
                       (''fee'', field transaction ''fee'')]"
    unfolding sendCoins_Resolved by blast
  have other: "\<exists>r'. result' = Some r' \<and> field r' ''fee'' = field transaction ''fee''"
    if "sendCoins TransactionBuilder (self\<lparr>bitgo := (bitgo self)\<lparr>post_tx_send := post'\<rparr>\<rparr>) params =
           (Resolved result', t')" for post' result' t'
    using that kc plain tr
    unfolding sendCoins_Resolved
    by (auto simp: getEncryptedUserKeychain_def tryKeyChain_broadcast_irrelevant
        createTransaction_broadcast_irrelevant field_Cons)
  from kc plain tr result other show ?thesis
    by (auto simp: field_Cons)
qed

theorem sendCoins_fee_fixed_at_assembly_witness:
  "\<exists>transaction tc r.
     createTransaction example_builder (Wallet example_bitgo (example_data [ref ''xpub1'']))
       \<lparr>address = JString ''1ABC'', amount = JNumber 100000, fee = JUndefined,
        keychain = Some \<lparr>xpub = JString ''xpub1'', encryptedXprv = JString ''enc1'',
                         xprv = JString ''xprv1''\<rparr>\<rparr> = (Resolved (Some transaction), tc)
     \<and> fst (sendCoins example_builder (Wallet example_bitgo (example_data [ref ''xpub1'']))
              (example_params 100000 ''correct'')) = Resolved (Some r)
     \<and> field r ''fee'' = field transaction ''fee''
     \<and> field r ''fee'' = JNumber 1000"
proof -
  let ?W = "Wallet example_bitgo (example_data [ref ''xpub1''])"
  let ?P = "example_params 100000 ''correct''"
  from sendCoins_fee_fixed_at_assembly [OF example_spend]
  obtain kc t1 plain transaction tc r where
    kc: "getEncryptedUserKeychain ?W = (Resolved kc, t1)"
    and plain: "decrypt (bitgo ?W) (walletPassphrase ?P) (encryptedXprv kc) = Inr plain"
    and tr: "createTransaction example_builder ?W
        \<lparr>address = address ?P, amount = amount ?P, fee = JUndefined,
         keychain = Some (kc\<lparr>xprv := plain\<rparr>)\<rparr> = (Resolved (Some transaction), tc)"
    and r: "Some [(''tx'', JString ''deadbeef''), (''hash'', JString ''h1''),
                  (''fee'', JNumber 1000)] = Some r"
    and fee: "field r ''fee'' = field transaction ''fee''"
    by blast
  from kc example_resolve have kc': "kc = stored ''xpub1'' (JString ''enc1'')" by simp
  from plain have plain': "plain = JString ''xprv1''"
    by (simp add: kc' example_params_def Wallet_def example_bitgo_def stored_def)
  from r have "field r ''fee'' = JNumber 1000" by (auto simp: field_Cons)
  with tr fee r example_spend show ?thesis
    by (auto simp: kc' plain' example_params_def stored_def)
qed

text \<open>
  Claim C7. The scenario of the spec: the wallet has one keychain reference \<^verbatim>\<open>xpub1\<close>,
  the keychain service answers it with a record whose blob is \<^verbatim>\<open>enc1\<close>, the request is
  for 100000 satoshis to \<^verbatim>\<open>1ABC\<close> under the passphrase \<^verbatim>\<open>correct\<close>, the primitive decrypts
  the blob, the Transaction Builder prepares and signs a transaction that serialises to
  \<^verbatim>\<open>deadbeef\<close> with the fee 1000, and the broadcast endpoint answers with the transaction
  \<^verbatim>\<open>deadbeef\<close> and the hash \<^verbatim>\<open>h1\<close>. Then \<^verbatim>\<open>sendCoins\<close> is resolved with exactly
  \<^verbatim>\<open>{tx: deadbeef, hash: h1, fee: 1000}\<close>, after one call of each collaborator.
\<close>

theorem sendCoins_scenario:
  assumes "keychains self = Some [c]" and "xpub c = JString ''xpub1''"
    and "keychains_get (bitgo self) (JString ''xpub1'') = Inr kc"
    and "encryptedXprv kc = JString ''enc1''"
    and "address params = JString ''1ABC''" and "amount params = JNumber 100000"
    and "walletPassphrase params = JString ''correct''"
    and "decrypt (bitgo self) (JString ''correct'') (JString ''enc1'') = Inr plain"
    and "prepare TransactionBuilder (wallet self) (JString ''1ABC'') (JNumber 100000) JUndefined
           = Inr tb"
    and "sign TransactionBuilder tb (kc\<lparr>xprv := plain\<rparr>) = Inr (Some tb')"
    and "tb_tx TransactionBuilder tb' = JString ''deadbeef''"
    and "tb_fee TransactionBuilder tb' = JNumber 1000"
    and "post_tx_send (bitgo self) (JString ''deadbeef'') = Inr body"
    and "field body ''transaction'' = JString ''deadbeef''"
    and "field body ''transactionHash'' = JString ''h1''"
  shows "sendCoins TransactionBuilder self params =
     (Resolved (Some [(''tx'', JString ''deadbeef''), (''hash'', JString ''h1''),
                      (''fee'', JNumber 1000)]),
      [KeychainGet (JString ''xpub1''), Decrypt (JString ''correct'') (JString ''enc1''),
       Prepare (JString ''1ABC'') (JNumber 100000) JUndefined, Sign (kc\<lparr>xprv := plain\<rparr>),
       TxSend (JString ''deadbeef'')])"
proof -
  have kc: "getEncryptedUserKeychain self = (Resolved kc, [KeychainGet (JString ''xpub1'')])"
    using tryKeyChain_first [of self "[]" c "[]" kc 0] assms(1-4)
    by (simp add: getEncryptedUserKeychain_def)
  have tr: "createTransaction TransactionBuilder self
       \<lparr>address = JString ''1ABC'', amount = JNumber 100000, fee = JUndefined,
        keychain = Some (kc\<lparr>xprv := plain\<rparr>)\<rparr> =
     (Resolved (Some [(''tx'', JString ''deadbeef''), (''fee'', JNumber 1000)]),
      [Prepare (JString ''1ABC'') (JNumber 100000) JUndefined, Sign (kc\<lparr>xprv := plain\<rparr>)])"
    using assms(9-12) by (simp add: createTransaction_def thenP_def call_def)
  have send: "sendTransaction self (JString ''deadbeef'') =
     (Resolved [(''tx'', JString ''deadbeef''), (''hash'', JString ''h1'')],
      [TxSend (JString ''deadbeef'')])"
    using assms(13-15) by (simp add: sendTransaction_def thenP_def call_def)
  have unlock: "sendCoins_unlock TransactionBuilder self params kc =
     (Resolved (Some [(''tx'', JString ''deadbeef''), (''fee'', JNumber 1000)]),
      [Decrypt (JString ''correct'') (JString ''enc1''),
       Prepare (JString ''1ABC'') (JNumber 100000) JUndefined, Sign (kc\<lparr>xprv := plain\<rparr>)])"
    using assms(4-8) tr by (simp add: sendCoins_unlock_def)
  have final: "sendCoins_send self (Some [(''tx'', JString ''deadbeef''), (''fee'', JNumber 1000)]) =
     (Resolved (Some [(''tx'', JString ''deadbeef''), (''hash'', JString ''h1''),
                      (''fee'', JNumber 1000)]), [TxSend (JString ''deadbeef'')])"
    using send by (simp add: sendCoins_send_def thenP_def field_Cons)
  show ?thesis
    using assms(5-7) kc unlock final by (simp add: sendCoins_def thenP_def)
qed

theorem sendCoins_scenario_witness:
  "sendCoins example_builder (Wallet example_bitgo (example_data [ref ''xpub1'']))
     (example_params 100000 ''correct'') =
   (Resolved (Some [(''tx'', JString ''deadbeef''), (''hash'', JString ''h1''),
                    (''fee'', JNumber 1000)]),
    [KeychainGet (JString ''xpub1''), Decrypt (JString ''correct'') (JString ''enc1''),
     Prepare (JString ''1ABC'') (JNumber 100000) JUndefined,
     Sign \<lparr>xpub = JString ''xpub1'', encryptedXprv = JString ''enc1'', xprv = JString ''xprv1''\<rparr>,
     TxSend (JString ''deadbeef'')])"
  using sendCoins_scenario
    [of "Wallet example_bitgo (example_data [ref ''xpub1''])" "ref ''xpub1''"
        "stored ''xpub1'' (JString ''enc1'')" "example_params 100000 ''correct''"
        "JString ''xprv1''" example_builder 1000 1000
        "[(''transaction'', JString ''deadbeef''), (''transactionHash'', JString ''h1''),
          (''fee'', JNumber 77)]"]
  by (simp add: Wallet_def example_data_def example_bitgo_def example_builder_def
      example_params_def ref_def stored_def field_Cons)

section \<open>A wallet without private data\<close>

text \<open>
  Claim C10. A wallet constructed from data without a \<^verbatim>\<open>private\<close> property has the empty
  list of keychains, and neither \<^verbatim>\<open>getEncryptedUserKeychain\<close> nor \<^verbatim>\<open>sendCoins\<close> makes a
  single call on it. But \<^verbatim>\<open>tryKeyChain(0)\<close> calls \<^verbatim>\<open>self.reject\<close> (line 178) before any
  promise exists, so \<^verbatim>\<open>getEncryptedUserKeychain\<close> throws a \<^verbatim>\<open>TypeError\<close>, and so does
  \<^verbatim>\<open>sendCoins\<close> for every request that passes the synchronous validation: neither is
  rejected with \<^verbatim>\<open>No encrypted keychains on this wallet.\<close>.
\<close>

theorem Wallet_without_private:
  assumes "wallet_private data = None"
  shows "keychains (Wallet client data) = Some []
     \<and> getEncryptedUserKeychain (Wallet client data) =
         (Thrown (TypeError ''self.reject is not a function''), [])
     \<and> snd (sendCoins TransactionBuilder (Wallet client data) params) = []
     \<and> (validateParams [(''address'', address params),
           (''walletPassphrase'', walletPassphrase params)] = None
         \<and> typeof (amount params) = ''number'' \<and> \<not> le_zero (amount params) \<longrightarrow>
         sendCoins TransactionBuilder (Wallet client data) params =
           (Thrown (TypeError ''self.reject is not a function''), []))"
proof -
  have ks: "keychains (Wallet client data) = Some []"
    using assms by (simp add: Wallet_def)
  have r: "getEncryptedUserKeychain (Wallet client data) =
         (Thrown (TypeError ''self.reject is not a function''), [])"
    using tryKeyChain_end [OF ks, of 0] by (simp add: getEncryptedUserKeychain_def)
  have "snd (sendCoins TransactionBuilder (Wallet client data) params) = []"
    using r by (simp add: sendCoins_def thenP_def split: option.splits)
  moreover have "validateParams [(''address'', address params),
           (''walletPassphrase'', walletPassphrase params)] = None
         \<and> typeof (amount params) = ''number'' \<and> \<not> le_zero (amount params) \<longrightarrow>
         sendCoins TransactionBuilder (Wallet client data) params =
           (Thrown (TypeError ''self.reject is not a function''), [])"
    using r by (simp add: sendCoins_def thenP_def)
  ultimately show ?thesis using ks r by blast
qed

theorem Wallet_without_private_witness:
  "keychains (Wallet example_bitgo bare_data) = Some []
   \<and> getEncryptedUserKeychain (Wallet example_bitgo bare_data) =
       (Thrown (TypeError ''self.reject is not a function''), [])
   \<and> sendCoins example_builder (Wallet example_bitgo bare_data)
       (example_params 100000 ''correct'') =
       (Thrown (TypeError ''self.reject is not a function''), [])"
  using Wallet_without_private
    [of bare_data example_bitgo example_builder "example_params 100000 ''correct''"]
  by (simp add: bare_data_def example_params_def)

end
